theory Spec2Isabelle
  imports Complex_Main "HOL-Library.Sublist"
begin

text \<open>
  The filtering utilities of \<open>deeplake/core/vectorstore/vector_search/filter/filter.py\<close>
  and the \<open>search\<close> method of \<open>DeepLakeVectorStore\<close>
  (\<open>deeplake/core/vectorstore/deeplake_vectorstore.py\<close>), as functions on Python values.
  An exception is a value \<open>Inl e\<close> of the result; a substring test is \<open>sublist\<close>.
\<close>

section \<open>Python values, rows and views\<close>

text \<open>
  The scalar values a structured (JSON) column or a filter can hold: \<open>None\<close>, booleans,
  integers and strings. Floats and nested containers are outside the model.
\<close>

datatype pyval = VNone | VBool bool | VInt int | VStr string

text \<open>Python's \<open>==\<close> on these values: structural, except that \<open>True == 1\<close> and \<open>False == 0\<close>.\<close>

fun py_eq :: "pyval \<Rightarrow> pyval \<Rightarrow> bool" where
  "py_eq (VBool b) (VInt i) = (i = (if b then 1 else 0))"
| "py_eq (VInt i) (VBool b) = (i = (if b then 1 else 0))"
| "py_eq v w = (v = w)"

text \<open>
  What \<open>x[tensor].data()["value"]\<close> yields for one row: a scalar (the \<open>text\<close> and \<open>ids\<close>
  columns hold strings) or a mapping (the \<open>metadata\<close> column), a dict kept as an
  association list in insertion order.
\<close>

datatype cell = Scalar pyval | Json "(string \<times> pyval) list"

text \<open>A row \<open>x\<close>: what \<open>len(x)\<close> returns and the columns \<open>x[tensor]\<close> can read.\<close>

record row =
  row_len :: nat
  row_tensors :: "(string \<times> cell) list"

text \<open>
  A dataset or view: its rows in order, each with its sample index. \<open>len(view)\<close> is
  \<open>length\<close>, \<open>view.sample_indices\<close> is \<open>map fst\<close>.
\<close>

type_synonym view = "(nat \<times> row) list"

definition sample_indices :: "view \<Rightarrow> nat list" where
  "sample_indices v = map fst v"

datatype error =
    ValueError string
  | NotImplementedError string
  | KeyError string
  | TypeError
  | AttributeError
  | UnboundLocalError string
  | OtherError string

text \<open>
  The \<open>filter\<close> argument, \<open>Optional[Union[Dict, Callable]]\<close>: absent is \<open>None\<close>, a dict is
  \<open>{tensor: {key: value}}\<close> in insertion order, a callable is a predicate on rows
  that may raise.
\<close>

datatype filter_arg =
    FDict "(string \<times> (string \<times> pyval) list) list"
  | FCallable "row \<Rightarrow> error + bool"

text \<open>Truthiness of an optional filter and of an optional string, as \<open>and\<close>/\<open>or\<close>/\<open>if\<close> test them.\<close>

fun filter_truthy :: "filter_arg option \<Rightarrow> bool" where
  "filter_truthy None = False"
| "filter_truthy (Some (FDict d)) = (d \<noteq> [])"
| "filter_truthy (Some (FCallable p)) = True"

fun str_truthy :: "string option \<Rightarrow> bool" where
  "str_truthy None = False"
| "str_truthy (Some s) = (s \<noteq> [])"

section \<open>String helpers\<close>

definition sq :: char where
  "sq = CHR 0x27"

text \<open>The slice \<open>s[:-n]\<close> for a positive \<open>n\<close>: everything but the last \<open>n\<close> characters.\<close>

definition drop_last :: "nat \<Rightarrow> 'a list \<Rightarrow> 'a list" where
  "drop_last n s = take (length s - n) s"

definition digit_char :: "nat \<Rightarrow> char" where
  "digit_char n = ''0123456789'' ! n"

fun str_of_nat :: "nat \<Rightarrow> string" where
  "str_of_nat n = (if n < 10 then [digit_char n] else str_of_nat (n div 10) @ [digit_char (n mod 10)])"

declare str_of_nat.simps [simp del]

definition str_of_int :: "int \<Rightarrow> string" where
  "str_of_int i = (if i < 0 then CHR ''-'' # str_of_nat (nat (- i)) else str_of_nat (nat i))"

text \<open>The f-string rendering \<open>f"{value}"\<close>.\<close>

fun py_str :: "pyval \<Rightarrow> string" where
  "py_str VNone = ''None''"
| "py_str (VBool b) = (if b then ''True'' else ''False'')"
| "py_str (VInt i) = str_of_int i"
| "py_str (VStr s) = s"

section \<open>filter.py: translation of a dict filter into a query fragment\<close>

text \<open>\<open>val_str = f"'{value}'" if type(value) == str else f"{value}"\<close>\<close>

fun val_str :: "pyval \<Rightarrow> string" where
  "val_str (VStr s) = sq # s @ [sq]"
| "val_str v = py_str v"

text \<open>The inner loop over \<open>filter[tensor].items()\<close>, appending to \<open>tql_filter\<close>.\<close>

fun tql_items :: "string \<Rightarrow> (string \<times> pyval) list \<Rightarrow> string \<Rightarrow> string" where
  "tql_items tensor [] tql_filter = tql_filter"
| "tql_items tensor ((key, val) # rest) tql_filter =
     tql_items tensor rest
       (tql_filter @ tensor @ ''['' @ [sq] @ key @ [sq] @ ''] == '' @ val_str val @ '' and '')"

text \<open>The outer loop over \<open>filter.keys()\<close>.\<close>

fun tql_tensors :: "(string \<times> (string \<times> pyval) list) list \<Rightarrow> string \<Rightarrow> string" where
  "tql_tensors [] tql_filter = tql_filter"
| "tql_tensors ((tensor, items) # rest) tql_filter =
     tql_tensors rest (tql_items tensor items tql_filter)"

text \<open>
  \<open>attribute_based_filtering_tql(view, logger, filter=None, debug_mode=False)\<close>. The
  result is the returned pair together with the \<open>logger.warning\<close> calls made, each as
  the logger it went to and its message.
\<close>

definition attribute_based_filtering_tql ::
  "'v \<Rightarrow> 'l \<Rightarrow> filter_arg option \<Rightarrow> bool \<Rightarrow> ('v \<times> string) \<times> ('l \<times> string) list" where
  "attribute_based_filtering_tql view logger flt debug_mode =
     (let tql_filter =
        (case flt of
           None \<Rightarrow> ''''
         | Some (FDict d) \<Rightarrow> drop_last 5 (tql_tensors d '''')
         | Some (FCallable p) \<Rightarrow> '''')
      in ((view, tql_filter),
          if debug_mode
          then [(logger, ''Converted tql string is: '' @ [sq] @ tql_filter @ [sq])]
          else []))"

text \<open>
  The fragment as the specification words it: one clause
  \<open><tensor>['<key>'] == <literal>\<close> for each key/value pair.
\<close>

definition tql_clause :: "string \<Rightarrow> string \<times> pyval \<Rightarrow> string" where
  "tql_clause tensor kv =
     tensor @ ''['' @ [sq] @ fst kv @ [sq] @ ''] == '' @
     (case snd kv of VStr s \<Rightarrow> [sq] @ s @ [sq] | v \<Rightarrow> py_str v)"

definition tql_clauses :: "(string \<times> (string \<times> pyval) list) list \<Rightarrow> string list" where
  "tql_clauses d = concat (map (\<lambda>(tensor, items). map (tql_clause tensor) items) d)"

section \<open>The backing dataset's row filtering\<close>

text \<open>
  Modelled from the spec: the backing dataset's generic row-predicate filtering
  (\<open>view.filter(fn)\<close>, part of the storage engine). It keeps, in order, the rows on
  which the predicate's result is truthy, each under its own sample index; an exception
  raised by the predicate on a row ends the filtering with that exception.
\<close>

fun filter_view :: "(row \<Rightarrow> error + bool) \<Rightarrow> view \<Rightarrow> error + view" where
  "filter_view p [] = Inr []"
| "filter_view p ((i, x) # rest) =
     (case p x of
        Inl e \<Rightarrow> Inl e
      | Inr b \<Rightarrow>
          (case filter_view p rest of
             Inl e \<Rightarrow> Inl e
           | Inr v \<Rightarrow> Inr (if b then (i, x) # v else v)))"

text \<open>\<open>x[tensor].data()["value"]\<close>: a column the row does not have is a \<open>KeyError\<close>.\<close>

definition tensor_value :: "row \<Rightarrow> string \<Rightarrow> error + cell" where
  "tensor_value x tensor =
     (case map_of (row_tensors x) tensor of
        None \<Rightarrow> Inl (KeyError tensor)
      | Some c \<Rightarrow> Inr c)"

section \<open>filter.py: the row predicate of a dict filter\<close>

text \<open>
  The values \<open>result\<close> takes in \<open>dp_filter_python\<close>: the list \<open>[1] * n\<close> it starts as,
  or the boolean \<open>all(...)\<close> returns. A list is truthy when it is not empty.
\<close>

datatype pyres = RList nat | RBool bool

fun truthy :: "pyres \<Rightarrow> bool" where
  "truthy (RList n) = (0 < n)"
| "truthy (RBool b) = b"

text \<open>
  \<open>k in metadata and v == metadata[k]\<close>. On a mapping, \<open>in\<close> tests the keys. On a string
  it tests for a substring, and \<open>metadata[k]\<close> with a string index then raises
  \<open>TypeError\<close>. Any other scalar is not iterable.
\<close>

fun key_matches :: "cell \<Rightarrow> string \<Rightarrow> pyval \<Rightarrow> error + bool" where
  "key_matches (Json m) k v =
     Inr (case map_of m k of None \<Rightarrow> False | Some w \<Rightarrow> py_eq v w)"
| "key_matches (Scalar (VStr s)) k v = (if sublist k s then Inl TypeError else Inr False)"
| "key_matches (Scalar w) k v = Inl TypeError"

text \<open>\<open>all(... for k, v in filter[tensor].items())\<close>, which stops at the first false item.\<close>

fun all_items :: "cell \<Rightarrow> (string \<times> pyval) list \<Rightarrow> error + bool" where
  "all_items metadata [] = Inr True"
| "all_items metadata ((k, v) # rest) =
     (case key_matches metadata k v of
        Inl e \<Rightarrow> Inl e
      | Inr b \<Rightarrow> if b then all_items metadata rest else Inr False)"

text \<open>
  The loop over \<open>filter.keys()\<close>. The column is read on every iteration;
  \<open>result and all(...)\<close> evaluates \<open>all(...)\<close> only while \<open>result\<close> is truthy.
\<close>

fun dp_filter_loop ::
  "row \<Rightarrow> (string \<times> (string \<times> pyval) list) list \<Rightarrow> pyres \<Rightarrow> error + pyres" where
  "dp_filter_loop x [] result = Inr result"
| "dp_filter_loop x ((tensor, items) # rest) result =
     (case tensor_value x tensor of
        Inl e \<Rightarrow> Inl e
      | Inr metadata \<Rightarrow>
          if truthy result
          then (case all_items metadata items of
                  Inl e \<Rightarrow> Inl e
                | Inr b \<Rightarrow> dp_filter_loop x rest (RBool b))
          else dp_filter_loop x rest result)"

text \<open>
  \<open>dp_filter_python(x, filter)\<close>. A filter that is not a dict has no \<open>keys()\<close>:
  \<open>AttributeError\<close>.
\<close>

definition dp_filter_python :: "row \<Rightarrow> filter_arg option \<Rightarrow> error + pyres" where
  "dp_filter_python x flt =
     (case flt of
        Some (FDict d) \<Rightarrow> dp_filter_loop x d (RList (row_len x))
      | _ \<Rightarrow> Inl AttributeError)"

text \<open>\<open>partial(dp_filter_python, filter=filter)\<close> as the predicate the dataset filters by.\<close>

definition dp_filter_predicate :: "filter_arg option \<Rightarrow> row \<Rightarrow> error + bool" where
  "dp_filter_predicate flt x =
     (case dp_filter_python x flt of Inl e \<Rightarrow> Inl e | Inr r \<Rightarrow> Inr (truthy r))"

definition attribute_based_filtering_python :: "view \<Rightarrow> filter_arg option \<Rightarrow> error + view" where
  "attribute_based_filtering_python view flt =
     (case flt of
        None \<Rightarrow> Inr view
      | Some (FDict d) \<Rightarrow> filter_view (dp_filter_predicate (Some (FDict d))) view
      | Some (FCallable p) \<Rightarrow> filter_view p view)"

section \<open>filter.py: exact text search\<close>

text \<open>
  \<open>query in x["text"].data()["value"]\<close>. On a string value a string \<open>query\<close> is a
  substring test and \<open>None\<close> raises \<open>TypeError\<close>; on a mapping it tests the keys.
\<close>

fun contains_query :: "string option \<Rightarrow> cell \<Rightarrow> error + bool" where
  "contains_query (Some q) (Scalar (VStr s)) = Inr (sublist q s)"
| "contains_query None (Scalar (VStr s)) = Inl TypeError"
| "contains_query (Some q) (Json m) = Inr (q \<in> set (map fst m))"
| "contains_query None (Json m) = Inr False"
| "contains_query q (Scalar w) = Inl TypeError"

definition text_predicate :: "string option \<Rightarrow> row \<Rightarrow> error + bool" where
  "text_predicate query x =
     (case tensor_value x ''text'' of Inl e \<Rightarrow> Inl e | Inr c \<Rightarrow> contains_query query c)"

definition no_files_warning :: string where
  "no_files_warning =
     ''Exact text search wasn't able to find any files. Try other search options like embedding search.''"

text \<open>
  Modelled from the spec: the warning helper \<open>always_warn\<close> of \<open>deeplake.util.warnings\<close>,
  which emits a non-fatal, always-visible warning. Here it adds the message to the
  warnings emitted so far.
\<close>

definition always_warn :: "string \<Rightarrow> string list \<Rightarrow> string list" where
  "always_warn msg emitted = emitted @ [msg]"

text \<open>
  \<open>exact_text_search(view, query)\<close>: the returned tuple, with the warnings emitted
  beside it. The score \<open>1.0\<close> is the real number one.
\<close>

definition exact_text_search ::
  "view \<Rightarrow> string option \<Rightarrow> error + ((view \<times> real list \<times> nat list option) \<times> string list)" where
  "exact_text_search view query =
     (case filter_view (text_predicate query) view of
        Inl e \<Rightarrow> Inl e
      | Inr view' \<Rightarrow>
          (let scores = replicate (length view') (1 :: real)
           in if length view' = 0
              then Inr ((view', scores, None), always_warn no_files_warning [])
              else Inr ((view', scores, Some (sample_indices view')), [])))"

section \<open>filter.py: resolving ids and filters to row indices\<close>

text \<open>\<open>x["ids"].data()["value"] in ids\<close>, with \<open>ids\<close> a list of strings.\<close>

fun value_in_ids :: "cell \<Rightarrow> string list \<Rightarrow> bool" where
  "value_in_ids (Scalar v) ids = list_ex (\<lambda>ident. py_eq v (VStr ident)) ids"
| "value_in_ids (Json m) ids = False"

definition ids_predicate :: "string list \<Rightarrow> row \<Rightarrow> error + bool" where
  "ids_predicate ids x =
     (case tensor_value x ''ids'' of Inl e \<Rightarrow> Inl e | Inr c \<Rightarrow> Inr (value_in_ids c ids))"

text \<open>
  The loop of \<open>get_ids_that_does_not_exist\<close>: \<open>id not in filtered_ids\<close> compares a
  requested id, a string, with the row indices, integers.
\<close>

fun ids_that_doesnt_exist_loop :: "string list \<Rightarrow> nat list \<Rightarrow> string \<Rightarrow> string" where
  "ids_that_doesnt_exist_loop [] filtered_ids acc = acc"
| "ids_that_doesnt_exist_loop (ident # rest) filtered_ids acc =
     ids_that_doesnt_exist_loop rest filtered_ids
       (if \<not> list_ex (\<lambda>i. py_eq (VStr ident) (VInt (int i))) filtered_ids
        then acc @ ''`'' @ ident @ ''`, ''
        else acc)"

definition get_ids_that_does_not_exist :: "string list \<Rightarrow> nat list \<Rightarrow> string" where
  "get_ids_that_does_not_exist ids filtered_ids =
     drop_last 2 (ids_that_doesnt_exist_loop ids filtered_ids '''')"

definition get_id_indices :: "view \<Rightarrow> string list \<Rightarrow> error + nat list" where
  "get_id_indices dataset ids =
     (case filter_view (ids_predicate ids) dataset of
        Inl e \<Rightarrow> Inl e
      | Inr view \<Rightarrow>
          (let filtered_ids = sample_indices view
           in if length filtered_ids \<noteq> length ids
              then Inl (ValueError (''The following ids: '' @
                          get_ids_that_does_not_exist ids filtered_ids @
                          '' does not exist in the dataset''))
              else Inr filtered_ids))"

text \<open>
  \<open>get_filtered_ids(dataset, filter)\<close>. The parameter \<open>filter_str\<close> is the text that
  \<open>f"{filter}"\<close> renders the filter object as in the error message.
\<close>

definition get_filtered_ids ::
  "string \<Rightarrow> view \<Rightarrow> filter_arg option \<Rightarrow> error + nat list" where
  "get_filtered_ids filter_str dataset flt =
     (case filter_view (dp_filter_predicate flt) dataset of
        Inl e \<Rightarrow> Inl e
      | Inr view \<Rightarrow>
          (let filtered_ids = sample_indices view
           in if length filtered_ids = 0
              then Inl (ValueError (filter_str @ '' does not exist in the dataset.''))
              else Inr filtered_ids))"

fun ids_truthy :: "string list option \<Rightarrow> bool" where
  "ids_truthy None = False"
| "ids_truthy (Some l) = (l \<noteq> [])"

definition get_converted_ids ::
  "string \<Rightarrow> view \<Rightarrow> filter_arg option \<Rightarrow> string list option \<Rightarrow> error + nat list" where
  "get_converted_ids filter_str dataset flt ids =
     (if ids_truthy ids \<and> filter_truthy flt
      then Inl (ValueError ''Either filter or ids should be specified.'')
      else (case ids of
              Some l \<Rightarrow>
                if l \<noteq> [] then get_id_indices dataset l
                else get_filtered_ids filter_str dataset flt
            | None \<Rightarrow> get_filtered_ids filter_str dataset flt))"

section \<open>deeplake_vectorstore.py: the facade's search\<close>

text \<open>The fields of \<open>self\<close> that \<open>search\<close> reads: \<open>self.dataset\<close> and \<open>self._exec_option\<close>.\<close>

record store =
  self_dataset :: view
  self_exec_option :: string

text \<open>
  An argument of a call: left out, so that the parameter's default applies, or given.
\<close>

datatype 'a arg = Omitted | Given 'a

definition with_default :: "'a \<Rightarrow> 'a arg \<Rightarrow> 'a" where
  "with_default d a = (case a of Omitted \<Rightarrow> d | Given v \<Rightarrow> v)"

text \<open>The default in the signature: \<open>exec_option: Optional[str] = "python"\<close>.\<close>

definition search_exec_option_default :: "string option" where
  "search_exec_option_default = Some ''python''"

text \<open>The parameters of \<open>search\<close>, after the defaults have been filled in.\<close>

record ('v, 'f) search_args =
  arg_prompt :: "string option"
  arg_embedding_function :: "'f option"
  arg_embedding :: "'v option"
  arg_k :: int
  arg_distance_metric :: string
  arg_query :: "string option"
  arg_filter :: "filter_arg option"
  arg_exec_option :: "string option"
  arg_embedding_tensor :: string

text \<open>
  The functions \<open>search\<close> calls in modules that are not part of the sources read here
  (\<open>dataset_utils\<close>, \<open>utils\<close>, \<open>vectorstore\<close>) and the module flag \<open>_INDRA_INSTALLED\<close>,
  taken as parameters. The arguments are in the order of the calls in \<open>search\<close>.
\<close>

record ('v, 'f, 'e, 'rt, 'r) externals =
  get_embedding :: "'v option \<Rightarrow> string option \<Rightarrow> 'f option \<Rightarrow> error + 'v"
  get_runtime_from_exec_option :: "string \<Rightarrow> error + 'rt"
  fetch_embeddings :: "string \<Rightarrow> view \<Rightarrow> string \<Rightarrow> error + 'e"
  python_vector_search :: "view \<Rightarrow> 'v \<Rightarrow> 'e \<Rightarrow> string \<Rightarrow> int \<Rightarrow> error + 'r"
  check_indra_installation :: "string \<Rightarrow> bool \<Rightarrow> error + unit"
  vector_search ::
    "'v \<Rightarrow> string \<Rightarrow> view \<Rightarrow> int \<Rightarrow> string option \<Rightarrow> string \<Rightarrow> string \<Rightarrow> 'rt \<Rightarrow> error + 'r"
  indra_installed :: bool

text \<open>\<open>str.lower()\<close> on ASCII letters.\<close>

definition lower_char :: "char \<Rightarrow> char" where
  "lower_char c =
     (case map_of (zip ''ABCDEFGHIJKLMNOPQRSTUVWXYZ'' ''abcdefghijklmnopqrstuvwxyz'') c of
        None \<Rightarrow> c
      | Some d \<Rightarrow> d)"

definition lower :: "string \<Rightarrow> string" where
  "lower s = map lower_char s"

text \<open>Sequencing of calls that may raise.\<close>

definition and_then :: "error + 'a \<Rightarrow> ('a \<Rightarrow> error + 'b) \<Rightarrow> error + 'b" where
  "and_then m f = (case m of Inl e \<Rightarrow> Inl e | Inr a \<Rightarrow> f a)"

text \<open>Reading a local variable that no executed assignment has bound.\<close>

definition read_local :: "string \<Rightarrow> 'a option \<Rightarrow> error + 'a" where
  "read_local name v = (case v of None \<Rightarrow> Inl (UnboundLocalError name) | Some a \<Rightarrow> Inr a)"

text \<open>
  \<open>type(filter)\<close>, and \<open>typing.Callable\<close>, which \<open>search\<close> compares it with:
  \<open>typing.Callable\<close> is a special form of the \<open>typing\<close> module, the type of no object.
\<close>

datatype pytype = NoneType | DictType | FunctionType | TypingCallable

fun type_of_filter :: "filter_arg option \<Rightarrow> pytype" where
  "type_of_filter None = NoneType"
| "type_of_filter (Some (FDict d)) = DictType"
| "type_of_filter (Some (FCallable p)) = FunctionType"

text \<open>\<open>exec_option = exec_option or self._exec_option\<close>\<close>

definition effective_exec_option :: "string option \<Rightarrow> string \<Rightarrow> string" where
  "effective_exec_option exec_option self_option =
     (case exec_option of
        None \<Rightarrow> self_option
      | Some s \<Rightarrow> if s = [] then self_option else s)"

text \<open>
  The branch \<open>exec_option == "python"\<close>. The arguments of the final call are evaluated
  left to right, \<open>query_emb\<close> before \<open>distance_metric.lower()\<close>.
\<close>

definition search_python ::
  "('v, 'f, 'e, 'rt, 'r) externals \<Rightarrow> store \<Rightarrow> ('v, 'f) search_args \<Rightarrow> string \<Rightarrow> 'v option
     \<Rightarrow> error + 'r" where
  "search_python env self args exec_option query_emb =
     (if arg_query args \<noteq> None
      then Inl (NotImplementedError
             (''User-specified TQL queries are not support for exec_option='' @ exec_option @ '' ''))
      else
        and_then (attribute_based_filtering_python (self_dataset self) (arg_filter args)) (\<lambda>view.
        and_then (fetch_embeddings env exec_option view (arg_embedding_tensor args)) (\<lambda>embeddings.
        and_then (read_local ''query_emb'' query_emb) (\<lambda>q.
          python_vector_search env view q embeddings
            (lower (arg_distance_metric args)) (arg_k args)))))"

text \<open>
  The other branch. The call \<open>attribute_based_filtering_tql(self.dataset, filter)\<close> is
  positional: \<open>filter\<close> lands in the parameter \<open>logger\<close>, and the parameters \<open>filter\<close>
  and \<open>debug_mode\<close> keep their defaults \<open>None\<close> and \<open>False\<close>.
\<close>

definition search_delegated ::
  "('v, 'f, 'e, 'rt, 'r) externals \<Rightarrow> store \<Rightarrow> ('v, 'f) search_args \<Rightarrow> string \<Rightarrow> 'rt
     \<Rightarrow> 'v option \<Rightarrow> error + 'r" where
  "search_delegated env self args exec_option runtime query_emb =
     (if type_of_filter (arg_filter args) = TypingCallable
      then Inl (NotImplementedError
             (''UDF filter function are not supported with exec_option='' @ exec_option))
      else if str_truthy (arg_query args) \<and> filter_truthy (arg_filter args)
      then Inl (NotImplementedError
             ''query and filter parameters cannot be specified simultaneously.'')
      else
        and_then (check_indra_installation env exec_option (indra_installed env)) (\<lambda>u.
          (case attribute_based_filtering_tql (self_dataset self) (arg_filter args) None False of
             ((view, tql_filter), logged) \<Rightarrow>
               and_then (read_local ''query_emb'' query_emb) (\<lambda>q.
                 vector_search env q (lower (arg_distance_metric args)) view (arg_k args)
                   (arg_query args) tql_filter (arg_embedding_tensor args) runtime))))"

text \<open>
  The first half of \<open>search\<close>: the branch on the embedding arguments. It yields the
  binding of \<open>query_emb\<close> (none on the text-search branch, where \<open>view\<close>, \<open>scores\<close> and
  \<open>indices\<close> are bound instead and not read again) and the warnings emitted.
\<close>

definition search_query_emb ::
  "('v, 'f, 'e, 'rt, 'r) externals \<Rightarrow> store \<Rightarrow> ('v, 'f) search_args
     \<Rightarrow> error + ('v option \<times> string list)" where
  "search_query_emb env self args =
     (if arg_embedding_function args = None \<and> arg_embedding args = None
      then (case exact_text_search (self_dataset self) (arg_prompt args) of
              Inl e \<Rightarrow> Inl e
            | Inr ((view, scores, indices), warned) \<Rightarrow> Inr (None, warned))
      else (case get_embedding env (arg_embedding args) (arg_prompt args)
                   (arg_embedding_function args) of
              Inl e \<Rightarrow> Inl e
            | Inr q \<Rightarrow> Inr (Some q, [])))"

text \<open>
  \<open>DeepLakeVectorStore.search\<close>: what it returns or raises, and the warnings emitted on
  the way.
\<close>

definition search ::
  "('v, 'f, 'e, 'rt, 'r) externals \<Rightarrow> store \<Rightarrow> ('v, 'f) search_args
     \<Rightarrow> (error + 'r) \<times> string list" where
  "search env self args =
     (let exec_option = effective_exec_option (arg_exec_option args) (self_exec_option self)
      in if exec_option \<notin> {''python'', ''compute_engine'', ''tensor_db''}
         then (Inl (ValueError
                 ''Invalid `exec_option` it should be either `python`, `compute_engine` or `tensor_db`.''),
               [])
         else
           (case search_query_emb env self args of
              Inl e \<Rightarrow> (Inl e, [])
            | Inr (query_emb, warned) \<Rightarrow>
                (and_then (get_runtime_from_exec_option env exec_option) (\<lambda>runtime.
                   if exec_option = ''python''
                   then search_python env self args exec_option query_emb
                   else search_delegated env self args exec_option runtime query_emb),
                 warned)))"

section \<open>Example inputs\<close>

text \<open>The defaults of the parameters of \<open>search\<close>, as its signature gives them.\<close>

definition search_defaults :: "('v, 'f) search_args" where
  "search_defaults =
     \<lparr>arg_prompt = None, arg_embedding_function = None, arg_embedding = None, arg_k = 4,
      arg_distance_metric = ''L2'', arg_query = None, arg_filter = None,
      arg_exec_option = search_exec_option_default, arg_embedding_tensor = ''embedding''\<rparr>"

text \<open>A dataset of two rows, with the ids \<open>a\<close> and \<open>c\<close>.\<close>

definition example_dataset :: view where
  "example_dataset =
     [(0, \<lparr>row_len = 1, row_tensors =
            [(''text'', Scalar (VStr ''hello world'')),
             (''metadata'', Json [(''k'', VStr ''v''), (''n'', VInt 1)]),
             (''ids'', Scalar (VStr ''a''))]\<rparr>),
      (1, \<lparr>row_len = 1, row_tensors =
            [(''text'', Scalar (VStr ''goodbye'')),
             (''metadata'', Json [(''k'', VStr ''w'')]),
             (''ids'', Scalar (VStr ''c''))]\<rparr>)]"

definition example_store :: "string \<Rightarrow> store" where
  "example_store opt = \<lparr>self_dataset = example_dataset, self_exec_option = opt\<rparr>"

text \<open>
  External functions that all succeed: the embedding is passed through, the runtime is
  the option's name, and the two ranking functions report which of them ran.
\<close>

definition example_externals :: "(nat list, unit, unit, string, string) externals" where
  "example_externals =
     \<lparr>get_embedding = (\<lambda>embedding prompt f.
          case embedding of None \<Rightarrow> Inl (OtherError ''no embedding'') | Some v \<Rightarrow> Inr v),
      get_runtime_from_exec_option = (\<lambda>opt. Inr opt),
      fetch_embeddings = (\<lambda>opt view tensor. Inr ()),
      python_vector_search = (\<lambda>view q embeddings metric k. Inr ''ranked locally''),
      check_indra_installation = (\<lambda>opt installed.
          if installed then Inr () else Inl (OtherError ''indra is not installed'')),
      vector_search = (\<lambda>q metric view k query tql_filter tensor runtime.
          Inr (''delegated to '' @ runtime @ '' with filter ['' @ tql_filter @ '']'')),
      indra_installed = True\<rparr>"

text \<open>A callable filter: \<open>lambda x: True\<close>.\<close>

definition always_true :: "row \<Rightarrow> error + bool" where
  "always_true x = Inr True"

section \<open>The properties as the specification words them\<close>

text \<open>The clauses joined by \<open>" and "\<close>, with no trailing \<open>and\<close>.\<close>

fun join_and :: "string list \<Rightarrow> string" where
  "join_and [] = ''''"
| "join_and [c] = c"
| "join_and (c # cs) = c @ '' and '' @ join_and cs"

text \<open>A row whose \<open>text\<close> column holds a string, and whether that string contains \<open>q\<close>.\<close>

definition has_text :: "row \<Rightarrow> bool" where
  "has_text x =
     (case map_of (row_tensors x) ''text'' of Some (Scalar (VStr s)) \<Rightarrow> True | _ \<Rightarrow> False)"

definition text_contains :: "string \<Rightarrow> row \<Rightarrow> bool" where
  "text_contains q x =
     (case map_of (row_tensors x) ''text'' of
        Some (Scalar (VStr s)) \<Rightarrow> sublist q s
      | _ \<Rightarrow> False)"

text \<open>
  The constraints of a dict filter on a row: every named tensor is a column of the row,
  and every listed key is present in that column's mapping with an equal value.
\<close>

definition constraints_hold :: "row \<Rightarrow> (string \<times> (string \<times> pyval) list) list \<Rightarrow> bool" where
  "constraints_hold x d =
     list_all (\<lambda>(tensor, items).
        case map_of (row_tensors x) tensor of
          None \<Rightarrow> False
        | Some c \<Rightarrow>
            list_all (\<lambda>(k, v).
               case c of
                 Json m \<Rightarrow> (case map_of m k of None \<Rightarrow> False | Some w \<Rightarrow> py_eq v w)
               | Scalar w \<Rightarrow> False) items) d"

section \<open>The query fragment of a filter\<close>

lemma tql_items_acc:
  "tql_items t kvs acc = acc @ concat (map (\<lambda>kv. tql_clause t kv @ '' and '') kvs)"
  by (induction kvs arbitrary: acc) (auto simp: tql_clause_def split: pyval.splits)

lemma tql_tensors_acc:
  "tql_tensors d acc = acc @ concat (map (\<lambda>c. c @ '' and '') (tql_clauses d))"
  by (induction d arbitrary: acc) (auto simp: tql_clauses_def tql_items_acc map_concat comp_def)

lemma drop_last_append: "n \<le> length ys \<Longrightarrow> drop_last n (xs @ ys) = xs @ drop_last n ys"
  by (simp add: drop_last_def)

text \<open>Stripping the last five characters leaves the clauses separated by \<open>" and "\<close>.\<close>

lemma drop_last_join: "drop_last 5 (concat (map (\<lambda>c. c @ '' and '') cs)) = join_and cs"
proof (induction cs rule: join_and.induct)
  case 1
  show ?case by (simp add: drop_last_def)
next
  case (2 c)
  show ?case by (simp add: drop_last_def)
next
  case (3 c d ds)
  let ?rest = "concat (map (\<lambda>c. c @ '' and '') (d # ds))"
  have len: "5 \<le> length ?rest" by simp
  have "drop_last 5 (concat (map (\<lambda>c. c @ '' and '') (c # d # ds))) =
        drop_last 5 ((c @ '' and '') @ ?rest)"
    by simp
  also have "\<dots> = (c @ '' and '') @ drop_last 5 ?rest"
    using len by (rule drop_last_append)
  finally show ?case using 3 by simp
qed

lemma tql_fragment_is_join:
  "snd (fst (attribute_based_filtering_tql view logger (Some (FDict d)) debug_mode)) =
     join_and (tql_clauses d)"
  by (simp add: attribute_based_filtering_tql_def Let_def tql_tensors_acc drop_last_join)

text \<open>
  Claim C2. For a filter that is a mapping, \<open>attribute_based_filtering_tql\<close> returns the
  view unmodified and the fragment made of one \<open><tensor>['<key>'] == <literal> and \<close>
  per key/value pair, in order, with the last five characters stripped; strings are
  single-quoted and other values printed plainly. The filter
  \<open>{"a": {"k": "v"}, "b": {"k2": 2}}\<close> gives \<open>a['k'] == 'v' and b['k2'] == 2\<close>, and an
  absent filter gives the empty string.
\<close>

theorem tql_fragment_of_dict_filter:
  "fst (attribute_based_filtering_tql view logger (Some (FDict d)) debug_mode) =
     (view, drop_last 5 (concat (map (\<lambda>c. c @ '' and '') (tql_clauses d))))
   \<and> fst (attribute_based_filtering_tql view logger
            (Some (FDict [(''a'', [(''k'', VStr ''v'')]), (''b'', [(''k2'', VInt 2)])]))
            debug_mode) =
     (view, ''a['k'] == 'v' and b['k2'] == 2'')
   \<and> fst (attribute_based_filtering_tql view logger None debug_mode) = (view, '''')"
proof (intro conjI)
  show "fst (attribute_based_filtering_tql view logger (Some (FDict d)) debug_mode) =
          (view, drop_last 5 (concat (map (\<lambda>c. c @ '' and '') (tql_clauses d))))"
    by (simp add: attribute_based_filtering_tql_def Let_def tql_tensors_acc)
  show "fst (attribute_based_filtering_tql view logger
               (Some (FDict [(''a'', [(''k'', VStr ''v'')]), (''b'', [(''k2'', VInt 2)])]))
               debug_mode) =
          (view, ''a['k'] == 'v' and b['k2'] == 2'')"
    by (simp add: attribute_based_filtering_tql_def drop_last_def sq_def str_of_int_def
        str_of_nat.simps digit_char_def Let_def)
  show "fst (attribute_based_filtering_tql view logger None debug_mode) = (view, '''')"
    by (simp add: attribute_based_filtering_tql_def)
qed

text \<open>
  Claim C10. For a filter that is present but not a mapping (a callable),
  \<open>attribute_based_filtering_tql\<close> returns the view unchanged with the empty fragment and
  raises nothing; without \<open>debug_mode\<close> it logs nothing either.
\<close>

theorem tql_callable_filter_dropped:
  "fst (attribute_based_filtering_tql view logger (Some (FCallable p)) debug_mode) = (view, '''')
   \<and> attribute_based_filtering_tql view logger (Some (FCallable p)) False = ((view, ''''), [])"
  by (simp add: attribute_based_filtering_tql_def)

section \<open>Where the errors of the row predicates come from\<close>

lemma filter_view_error: "filter_view p v = Inl e \<Longrightarrow> \<exists>x. p x = Inl e"
  by (induction v) (auto split: sum.splits)

lemma key_matches_error: "key_matches c k v = Inl e \<Longrightarrow> e = TypeError"
  by (cases "(c, k, v)" rule: key_matches.cases) (auto split: if_splits)

lemma all_items_error: "all_items c kvs = Inl e \<Longrightarrow> e = TypeError"
  by (induction kvs) (auto split: sum.splits if_splits dest: key_matches_error)

lemma dp_filter_loop_error:
  "dp_filter_loop x d r = Inl e \<Longrightarrow> e = TypeError \<or> (\<exists>t. e = KeyError t)"
  by (induction x d r rule: dp_filter_loop.induct)
    (auto simp: tensor_value_def split: sum.splits if_splits option.splits dest: all_items_error)

lemma dp_filter_predicate_error:
  "dp_filter_predicate flt x = Inl e \<Longrightarrow>
   e = TypeError \<or> e = AttributeError \<or> (\<exists>t. e = KeyError t)"
  by (auto simp: dp_filter_predicate_def dp_filter_python_def
      split: sum.splits option.splits filter_arg.splits dest: dp_filter_loop_error)

section \<open>Resolving ids and filters\<close>

lemma not_mutual_exclusion_message:
  "s @ '' does not exist in the dataset.'' \<noteq> ''Either filter or ids should be specified.''"
proof
  assume "s @ '' does not exist in the dataset.'' = ''Either filter or ids should be specified.''"
  then have "rev (s @ '' does not exist in the dataset.'') =
             rev ''Either filter or ids should be specified.''"
    by simp
  then show False by simp
qed

lemma get_filtered_ids_not_mutual_exclusion:
  "get_filtered_ids fs dataset flt \<noteq>
   Inl (ValueError ''Either filter or ids should be specified.'')"
proof
  assume a: "get_filtered_ids fs dataset flt =
             Inl (ValueError ''Either filter or ids should be specified.'')"
  show False
  proof (cases "filter_view (dp_filter_predicate flt) dataset")
    case (Inl e)
    with a have "e = ValueError ''Either filter or ids should be specified.''"
      by (simp add: get_filtered_ids_def)
    with Inl filter_view_error dp_filter_predicate_error show False by blast
  next
    case (Inr v)
    with a show False
      by (auto simp: get_filtered_ids_def Let_def not_mutual_exclusion_message split: if_splits)
  qed
qed

text \<open>
  Claim C9. With a filter present and an empty ids list, \<open>get_converted_ids\<close> does not
  raise the mutual-exclusion error: it resolves through \<open>get_filtered_ids\<close>, which never
  raises that error itself.
\<close>

theorem get_converted_ids_empty_ids_uses_filter:
  "get_converted_ids fs dataset (Some f) (Some []) = get_filtered_ids fs dataset (Some f)
   \<and> get_converted_ids fs dataset (Some f) (Some []) \<noteq>
       Inl (ValueError ''Either filter or ids should be specified.'')"
  by (simp add: get_converted_ids_def get_filtered_ids_not_mutual_exclusion)

text \<open>
  Claim C7, as stated: \<open>get_converted_ids\<close> fails whenever a non-absent filter and a
  non-empty ids list are both supplied. It does not for the empty dict \<open>{}\<close>, which is
  present but falsy: the ids are then resolved by \<open>get_id_indices\<close>.
\<close>

theorem get_converted_ids_empty_filter_counterexample:
  "get_converted_ids ''{}'' example_dataset (Some (FDict [])) (Some [''a'', ''c'']) = Inr [0, 1]"
  by (simp add: get_converted_ids_def get_id_indices_def ids_predicate_def tensor_value_def
      sample_indices_def example_dataset_def)

text \<open>
  Claim C7, amended. \<open>get_converted_ids\<close> fails with the mutual-exclusion error when a
  non-empty ids list and a truthy filter (a non-empty dict or a callable) are both
  supplied; with a non-empty ids list and an absent or empty filter it resolves by
  \<open>get_id_indices\<close>; with an empty or absent ids list it resolves by \<open>get_filtered_ids\<close>.
\<close>

theorem get_converted_ids_dispatch:
  "(l \<noteq> [] \<and> filter_truthy flt \<longrightarrow>
      get_converted_ids fs dataset flt (Some l) =
        Inl (ValueError ''Either filter or ids should be specified.''))
   \<and> (l \<noteq> [] \<and> \<not> filter_truthy flt \<longrightarrow>
      get_converted_ids fs dataset flt (Some l) = get_id_indices dataset l)
   \<and> get_converted_ids fs dataset flt (Some []) = get_filtered_ids fs dataset flt
   \<and> get_converted_ids fs dataset flt None = get_filtered_ids fs dataset flt"
  by (simp add: get_converted_ids_def)

theorem get_converted_ids_dispatch_witness:
  "get_converted_ids ''{'metadata': {'k': 'v'}}'' example_dataset
     (Some (FDict [(''metadata'', [(''k'', VStr ''v'')])])) (Some [''a'', ''c'']) =
     Inl (ValueError ''Either filter or ids should be specified.'')
   \<and> get_converted_ids ''None'' example_dataset None (Some [''a'', ''c'']) =
     get_id_indices example_dataset [''a'', ''c'']"
proof
  show "get_converted_ids ''{'metadata': {'k': 'v'}}'' example_dataset
     (Some (FDict [(''metadata'', [(''k'', VStr ''v'')])])) (Some [''a'', ''c'']) =
     Inl (ValueError ''Either filter or ids should be specified.'')"
    using get_converted_ids_dispatch
      [of "[''a'', ''c'']" "Some (FDict [(''metadata'', [(''k'', VStr ''v'')])])"
          "''{'metadata': {'k': 'v'}}''" example_dataset]
    by simp
  show "get_converted_ids ''None'' example_dataset None (Some [''a'', ''c'']) =
     get_id_indices example_dataset [''a'', ''c'']"
    using get_converted_ids_dispatch [of "[''a'', ''c'']" None "''None''" example_dataset]
    by simp
qed

lemma ids_that_doesnt_exist_loop_all:
  "ids_that_doesnt_exist_loop ids filtered_ids acc =
     acc @ concat (map (\<lambda>i. ''`'' @ i @ ''`, '') ids)"
  by (induction ids arbitrary: acc) (auto simp: list_ex_iff)

text \<open>
  Whenever the counts differ, the message of \<open>get_id_indices\<close> lists every requested id,
  found or not: no string equals a row index.
\<close>

lemma get_id_indices_error_lists_all:
  assumes "filter_view (ids_predicate ids) dataset = Inr v" and "length v \<noteq> length ids"
  shows "get_id_indices dataset ids =
           Inl (ValueError (''The following ids: '' @
                  drop_last 2 (concat (map (\<lambda>i. ''`'' @ i @ ''`, '') ids)) @
                  '' does not exist in the dataset''))"
  using assms
  by (simp add: get_id_indices_def Let_def sample_indices_def get_ids_that_does_not_exist_def
      ids_that_doesnt_exist_loop_all)

text \<open>
  Claim C4. Requesting the ids \<open>a\<close>, \<open>b\<close>, \<open>c\<close> from a dataset that holds only \<open>a\<close> and
  \<open>c\<close> raises the error, but its message names all three ids, not only the missing \<open>b\<close>.
\<close>

theorem get_id_indices_names_present_ids:
  "get_id_indices example_dataset [''a'', ''b'', ''c''] =
     Inl (ValueError ''The following ids: `a`, `b`, `c` does not exist in the dataset'')"
  by (simp add: get_id_indices_def ids_predicate_def tensor_value_def sample_indices_def
      get_ids_that_does_not_exist_def drop_last_def example_dataset_def)

section \<open>The effective execution option\<close>

text \<open>
  Claim C6, as stated: a call that does not supply \<open>exec_option\<close> is governed by the
  instance's stored option. On a store constructed with \<open>compute_engine\<close> it is not: the
  parameter's default \<open>"python"\<close> is truthy and wins.
\<close>

theorem exec_option_omitted_counterexample:
  "effective_exec_option (with_default search_exec_option_default Omitted) ''compute_engine''
     \<noteq> ''compute_engine''"
  by (simp add: effective_exec_option_def with_default_def search_exec_option_default_def)

text \<open>
  Claim C6, amended. The effective execution option is the per-call argument when it is
  supplied and not empty; it is \<open>"python"\<close>, the parameter's default, when the argument is
  left out; it is the instance's stored option when the argument is supplied as \<open>None\<close> or
  as the empty string.
\<close>

theorem effective_exec_option_resolution:
  "effective_exec_option (with_default search_exec_option_default (Given (Some (c # cs)))) inst
     = c # cs
   \<and> effective_exec_option (with_default search_exec_option_default Omitted) inst = ''python''
   \<and> effective_exec_option (with_default search_exec_option_default (Given None)) inst = inst
   \<and> effective_exec_option (with_default search_exec_option_default (Given (Some ''''))) inst
     = inst"
  by (simp add: effective_exec_option_def with_default_def search_exec_option_default_def)

section \<open>Exact text search\<close>

lemma text_predicate_has_text:
  "has_text x \<Longrightarrow> text_predicate (Some q) x = Inr (text_contains q x)"
  by (auto simp: has_text_def text_predicate_def text_contains_def tensor_value_def
      split: option.splits cell.splits pyval.splits)

lemma filter_view_text:
  "list_all (\<lambda>(i, x). has_text x) view \<Longrightarrow>
   filter_view (text_predicate (Some q)) view = Inr (filter (\<lambda>(i, x). text_contains q x) view)"
  by (induction view) (auto simp: text_predicate_has_text)

lemma sublist_hello: "sublist ''hello'' ''hello world''" "\<not> sublist ''hello'' ''goodbye''"
  by (simp_all add: sublist_Cons_right)

text \<open>
  Claim C8. On a view whose rows all hold a string in their \<open>text\<close> column,
  \<open>exact_text_search\<close> raises nothing and returns the rows containing the query, a
  score of 1.0 for each of them, and their sample indices; when no row matches, the
  index component is absent and the one warning is emitted.
\<close>

theorem exact_text_search_result:
  assumes "list_all (\<lambda>(i, x). has_text x) view"
  shows "exact_text_search view (Some q) =
     (let matching = filter (\<lambda>(i, x). text_contains q x) view
      in Inr ((matching, replicate (length matching) 1,
                if matching = [] then None else Some (map fst matching)),
               if matching = [] then [no_files_warning] else []))"
  using assms by (simp add: exact_text_search_def filter_view_text Let_def sample_indices_def always_warn_def)

theorem exact_text_search_result_witness:
  "exact_text_search example_dataset (Some ''hello'') =
     Inr (([(0, \<lparr>row_len = 1, row_tensors =
                   [(''text'', Scalar (VStr ''hello world'')),
                    (''metadata'', Json [(''k'', VStr ''v''), (''n'', VInt 1)]),
                    (''ids'', Scalar (VStr ''a''))]\<rparr>)], [1], Some [0]), [])
   \<and> exact_text_search example_dataset (Some ''needle'') =
     Inr (([], [], None), [no_files_warning])"
proof -
  have h: "list_all (\<lambda>(i, x). has_text x) example_dataset"
    by (simp add: example_dataset_def has_text_def)
  have needle: "\<not> sublist ''needle'' ''hello world''" "\<not> sublist ''needle'' ''goodbye''"
    by (simp_all add: sublist_Cons_right)
  show ?thesis
    using exact_text_search_result [OF h, of "''hello''"]
      exact_text_search_result [OF h, of "''needle''"]
    by (simp add: example_dataset_def text_contains_def sublist_hello needle)
qed

section \<open>The row predicate of a dict filter\<close>

lemma all_items_true:
  "all_items c items = Inr True \<longleftrightarrow>
   list_all (\<lambda>(k, v). case c of
                 Json m \<Rightarrow> (case map_of m k of None \<Rightarrow> False | Some w \<Rightarrow> py_eq v w)
               | Scalar w \<Rightarrow> False) items"
proof (induction items)
  case Nil
  show ?case by simp
next
  case (Cons kv items)
  obtain k v where kv: "kv = (k, v)" by (cases kv)
  show ?case
  proof (cases c)
    case (Json m)
    with Cons kv show ?thesis by (auto split: option.splits)
  next
    case (Scalar w)
    with kv show ?thesis by (cases w) (auto split: if_splits)
  qed
qed

lemma constraints_hold_Nil: "constraints_hold x []"
  by (simp add: constraints_hold_def)

lemma constraints_hold_Cons:
  "constraints_hold x ((tensor, items) # d) \<longleftrightarrow>
     (case map_of (row_tensors x) tensor of
        None \<Rightarrow> False
      | Some c \<Rightarrow> all_items c items = Inr True) \<and> constraints_hold x d"
  by (simp add: constraints_hold_def all_items_true split: option.splits)

text \<open>Once \<open>result\<close> is falsy it stays so.\<close>

lemma dp_filter_loop_falsy:
  "\<not> truthy r0 \<Longrightarrow> dp_filter_loop x d r0 = Inr r \<Longrightarrow> \<not> truthy r"
  by (induction x d r0 rule: dp_filter_loop.induct) (auto split: sum.splits)

lemma dp_filter_loop_truthy:
  "truthy r0 \<Longrightarrow>
   (\<exists>r. dp_filter_loop x d r0 = Inr r \<and> truthy r) \<longleftrightarrow> constraints_hold x d"
proof (induction d arbitrary: r0)
  case Nil
  then show ?case by (simp add: constraints_hold_Nil)
next
  case (Cons ti d)
  obtain tensor items where ti: "ti = (tensor, items)" by (cases ti)
  show ?case
  proof (cases "map_of (row_tensors x) tensor")
    case None
    with ti show ?thesis by (simp add: constraints_hold_Cons tensor_value_def)
  next
    case (Some c)
    show ?thesis
    proof (cases "all_items c items")
      case (Inl e)
      with Some ti Cons.prems show ?thesis
        by (simp add: constraints_hold_Cons tensor_value_def)
    next
      case (Inr b)
      show ?thesis
      proof (cases b)
        case True
        have "truthy (RBool True)" by simp
        from Cons.IH[OF this] True Inr Some ti Cons.prems show ?thesis
          by (simp add: constraints_hold_Cons tensor_value_def)
      next
        case False
        have "\<not> (\<exists>r. dp_filter_loop x d (RBool False) = Inr r \<and> truthy r)"
          using dp_filter_loop_falsy[of "RBool False" x d] by auto
        then show ?thesis using False Inr Some ti Cons.prems
          by (simp add: constraints_hold_Cons tensor_value_def)
      qed
    qed
  qed
qed

text \<open>
  Claim C3. For every row \<open>x\<close> that a view hands to the predicate (such a row has
  positive length, so that the start value \<open>[1] * len(x)\<close> is truthy) and every filter
  mapping, \<open>dp_filter_python\<close> keeps the row, returning a truthy result and raising
  nothing, if and only if every named tensor is a column of the row and every listed
  key is present in that column's mapping with an equal value.
\<close>

theorem dp_filter_python_keeps_iff_constraints:
  "0 < row_len x \<Longrightarrow>
   (\<exists>r. dp_filter_python x (Some (FDict d)) = Inr r \<and> truthy r) \<longleftrightarrow> constraints_hold x d"
  using dp_filter_loop_truthy[of "RList (row_len x)" x d] by (simp add: dp_filter_python_def)

theorem dp_filter_python_keeps_iff_constraints_witness:
  "constraints_hold
     \<lparr>row_len = 1, row_tensors = [(''metadata'', Json [(''k'', VStr ''v''), (''n'', VInt 1)])]\<rparr>
     [(''metadata'', [(''n'', VBool True), (''k'', VStr ''v'')])]
   \<and> (\<exists>r. dp_filter_python
             \<lparr>row_len = 1, row_tensors = [(''metadata'', Json [(''k'', VStr ''v''), (''n'', VInt 1)])]\<rparr>
             (Some (FDict [(''metadata'', [(''n'', VBool True), (''k'', VStr ''v'')])])) = Inr r
          \<and> truthy r)
   \<and> \<not> constraints_hold
     \<lparr>row_len = 1, row_tensors = [(''metadata'', Json [(''k'', VStr ''v''), (''n'', VInt 1)])]\<rparr>
     [(''metadata'', [(''k'', VStr ''w'')])]
   \<and> \<not> (\<exists>r. dp_filter_python
             \<lparr>row_len = 1, row_tensors = [(''metadata'', Json [(''k'', VStr ''v''), (''n'', VInt 1)])]\<rparr>
             (Some (FDict [(''metadata'', [(''k'', VStr ''w'')])])) = Inr r
          \<and> truthy r)"
proof -
  let ?x = "\<lparr>row_len = 1, row_tensors = [(''metadata'', Json [(''k'', VStr ''v''), (''n'', VInt 1)])]\<rparr>"
  let ?d = "[(''metadata'', [(''n'', VBool True), (''k'', VStr ''v'')])]"
  let ?d' = "[(''metadata'', [(''k'', VStr ''w'')])]"
  have len: "0 < row_len ?x" by simp
  have c: "constraints_hold ?x ?d" by (simp add: constraints_hold_def)
  have c': "\<not> constraints_hold ?x ?d'" by (simp add: constraints_hold_def)
  from dp_filter_python_keeps_iff_constraints [OF len, of ?d]
    dp_filter_python_keeps_iff_constraints [OF len, of ?d'] c c'
  show ?thesis by blast
qed

section \<open>The facade's search\<close>

lemma and_then_Inl [simp]: "and_then (Inl e) f = Inl e"
  by (simp add: and_then_def)

lemma and_then_Inr [simp]: "and_then (Inr a) f = f a"
  by (simp add: and_then_def)

lemma and_then_unbound:
  "\<exists>e. and_then m (\<lambda>a. and_then (read_local name None) (g a)) = Inl e"
  by (cases m) (simp_all add: read_local_def)

text \<open>With \<open>query_emb\<close> unbound, neither branch of \<open>search\<close> can return.\<close>

lemma search_python_unbound: "\<exists>e. search_python env self args opt None = Inl e"
proof (cases "arg_query args \<noteq> None")
  case True
  then show ?thesis by (simp add: search_python_def)
next
  case False
  show ?thesis
  proof (cases "attribute_based_filtering_python (self_dataset self) (arg_filter args)")
    case (Inl e)
    with False show ?thesis by (simp add: search_python_def)
  next
    case (Inr view)
    with False show ?thesis
      using and_then_unbound
        [of "fetch_embeddings env opt view (arg_embedding_tensor args)" "''query_emb''"]
      by (simp add: search_python_def)
  qed
qed

lemma search_delegated_unbound: "\<exists>e. search_delegated env self args opt rt None = Inl e"
  by (cases "check_indra_installation env opt (indra_installed env)")
    (simp_all add: search_delegated_def read_local_def attribute_based_filtering_tql_def)

text \<open>
  Claim C1. When neither an embedding nor an embedding function is supplied, \<open>search\<close>
  runs the exact text search but does not return its view, scores and indices: it goes
  on into the ranking path, where \<open>query_emb\<close> was never bound, so that every such call
  ends in an error.
\<close>

theorem search_without_embedding_always_raises:
  assumes "arg_embedding_function args = None" and "arg_embedding args = None"
  shows "\<exists>e. fst (search env self args) = Inl e"
proof -
  let ?opt = "effective_exec_option (arg_exec_option args) (self_exec_option self)"
  show ?thesis
  proof (cases "exact_text_search (self_dataset self) (arg_prompt args)")
    case (Inl e)
    with assms show ?thesis by (simp add: search_def search_query_emb_def Let_def)
  next
    case (Inr res)
    obtain tup warned where res: "res = (tup, warned)" by (cases res)
    obtain view scores indices where tup: "tup = (view, scores, indices)" by (cases tup)
    have q: "search_query_emb env self args = Inr (None, warned)"
      using assms Inr res tup by (simp add: search_query_emb_def)
    show ?thesis
    proof (cases "get_runtime_from_exec_option env ?opt")
      case (Inl e)
      with q show ?thesis by (simp add: search_def Let_def)
    next
      case rt: (Inr runtime)
      from search_python_unbound[of env self args ?opt]
        search_delegated_unbound[of env self args ?opt runtime]
      show ?thesis using q rt by (auto simp: search_def Let_def)
    qed
  qed
qed

theorem search_without_embedding_always_raises_witness:
  "(\<exists>e. fst (search example_externals (example_store ''python'')
               (search_defaults\<lparr>arg_prompt := Some ''hello''\<rparr>)) = Inl e)
   \<and> search example_externals (example_store ''python'')
       (search_defaults\<lparr>arg_prompt := Some ''hello''\<rparr>) =
     (Inl (UnboundLocalError ''query_emb''), [])"
proof
  have h1: "arg_embedding_function
              (search_defaults\<lparr>arg_prompt := Some ''hello''\<rparr> :: (nat list, unit) search_args) = None"
    by (simp add: search_defaults_def)
  have h2: "arg_embedding
              (search_defaults\<lparr>arg_prompt := Some ''hello''\<rparr> :: (nat list, unit) search_args) = None"
    by (simp add: search_defaults_def)
  show "\<exists>e. fst (search example_externals (example_store ''python'')
               (search_defaults\<lparr>arg_prompt := Some ''hello''\<rparr>)) = Inl e"
    by (rule search_without_embedding_always_raises [OF h1 h2])
  show "search example_externals (example_store ''python'')
       (search_defaults\<lparr>arg_prompt := Some ''hello''\<rparr>) =
     (Inl (UnboundLocalError ''query_emb''), [])"
    by (simp add: search_def search_query_emb_def search_defaults_def example_store_def
        example_dataset_def example_externals_def exact_text_search_def always_warn_def
        text_predicate_def
        tensor_value_def sublist_hello effective_exec_option_def search_exec_option_default_def
        search_python_def attribute_based_filtering_python_def read_local_def
        sample_indices_def Let_def)
qed

text \<open>
  Claim C5. With a delegated execution option and a callable filter, \<open>search\<close> does not
  raise the unsupported-combination error: \<open>type(filter) == Callable\<close> holds for no
  filter, and when the external calls succeed the search is delegated to
  \<open>vector_search\<close> with an empty filter fragment.
\<close>

theorem search_callable_filter_is_delegated:
  assumes flt: "arg_filter args = Some (FCallable p)"
    and opt: "effective_exec_option (arg_exec_option args) (self_exec_option self) = opt"
    and delegated: "opt = ''compute_engine'' \<or> opt = ''tensor_db''"
    and query: "\<not> str_truthy (arg_query args)"
    and emb: "\<not> (arg_embedding_function args = None \<and> arg_embedding args = None)"
    and get: "get_embedding env (arg_embedding args) (arg_prompt args)
                (arg_embedding_function args) = Inr q"
    and rt: "get_runtime_from_exec_option env opt = Inr runtime"
    and indra: "check_indra_installation env opt (indra_installed env) = Inr ()"
  shows "search env self args =
           (vector_search env q (lower (arg_distance_metric args)) (self_dataset self)
              (arg_k args) (arg_query args) '''' (arg_embedding_tensor args) runtime, [])"
proof -
  have qe: "search_query_emb env self args = Inr (Some q, [])"
    using emb get by (auto simp: search_query_emb_def)
  have d: "search_delegated env self args opt runtime (Some q) =
      vector_search env q (lower (arg_distance_metric args)) (self_dataset self) (arg_k args)
        (arg_query args) '''' (arg_embedding_tensor args) runtime"
    using flt query indra
    by (simp add: search_delegated_def attribute_based_filtering_tql_def read_local_def)
  from delegated have "opt \<noteq> ''python''" by auto
  with opt delegated qe rt d show ?thesis
    by (auto simp: search_def Let_def)
qed

theorem search_callable_filter_is_delegated_witness:
  "search example_externals (example_store ''python'')
     (search_defaults\<lparr>arg_embedding := Some [1, 2], arg_filter := Some (FCallable always_true),
                      arg_exec_option := Some ''compute_engine''\<rparr>) =
   (Inr ''delegated to compute_engine with filter []'', [])"
proof -
  let ?args = "search_defaults\<lparr>arg_embedding := Some [1, 2],
                 arg_filter := Some (FCallable always_true),
                 arg_exec_option := Some ''compute_engine''\<rparr> :: (nat list, unit) search_args"
  have "search example_externals (example_store ''python'') ?args =
          (vector_search example_externals [1, 2] (lower (arg_distance_metric ?args))
             (self_dataset (example_store ''python'')) (arg_k ?args) (arg_query ?args) ''''
             (arg_embedding_tensor ?args) ''compute_engine'', [])"
  proof (rule search_callable_filter_is_delegated [where p = always_true and opt = "''compute_engine''"])
    show "arg_filter ?args = Some (FCallable always_true)" by simp
    show "effective_exec_option (arg_exec_option ?args) (self_exec_option (example_store ''python''))
            = ''compute_engine''"
      by (simp add: effective_exec_option_def)
    show "''compute_engine'' = ''compute_engine'' \<or> ''compute_engine'' = ''tensor_db''" by simp
    show "\<not> str_truthy (arg_query ?args)" by (simp add: search_defaults_def)
    show "\<not> (arg_embedding_function ?args = None \<and> arg_embedding ?args = None)" by simp
    show "get_embedding example_externals (arg_embedding ?args) (arg_prompt ?args)
            (arg_embedding_function ?args) = Inr [1, 2]"
      by (simp add: example_externals_def)
    show "get_runtime_from_exec_option example_externals ''compute_engine'' = Inr ''compute_engine''"
      by (simp add: example_externals_def)
    show "check_indra_installation example_externals ''compute_engine''
            (indra_installed example_externals) = Inr ()"
      by (simp add: example_externals_def)
  qed
  then show ?thesis by (simp add: example_externals_def)
qed

end
